theory Spec2Isabelle
  imports Main
begin

section \<open>Values and texts\<close>

text \<open>
  The program handles three kinds of data: what \<^verbatim>\<open>json.load\<close> returns, the text
  the user types, and the literal texts the program shows.

  A Python \<^verbatim>\<open>str\<close> is a sequence of code points. Typed text and the strings
  stored in the file are modelled for code points below 256, one \<^typ>\<open>char\<close> per code
  point. The literals the program shows contain U+27A4 and U+2013, so a shown text is a
  list of code points.
\<close>

type_synonym utext = "nat list"

definition ascii :: "string \<Rightarrow> utext" where
  "ascii s = map of_char s"

text \<open>
  The result of \<^verbatim>\<open>json.load\<close>: \<^verbatim>\<open>None\<close>, \<^verbatim>\<open>bool\<close>, \<^verbatim>\<open>int\<close>,
  \<^verbatim>\<open>float\<close> (mantissa and binary exponent), \<^verbatim>\<open>str\<close>, \<^verbatim>\<open>list\<close> and
  \<^verbatim>\<open>dict\<close> (an association list; the first binding of a key is the one looked up).
\<close>

datatype jvalue =
    JNull
  | JBool bool
  | JInt int
  | JFloat int int
  | JString string
  | JArray "jvalue list"
  | JObject "(string \<times> jvalue) list"

datatype error =
    TypeError | KeyError | ValueError | AttributeError
  | JSONDecodeError | UnicodeDecodeError | RecursionError

subsection \<open>The Python operations the source applies to them\<close>

text \<open>\<^verbatim>\<open>k in s\<close> for two strings: \<^verbatim>\<open>k\<close> occurs in \<^verbatim>\<open>s\<close> as a substring.\<close>

fun is_substring :: "string \<Rightarrow> string \<Rightarrow> bool" where
  "is_substring k [] = (k = [])"
| "is_substring k (c # cs) = (take (length k) (c # cs) = k \<or> is_substring k cs)"

text \<open>
  \<^verbatim>\<open>k in d\<close> with \<^verbatim>\<open>k\<close> a string: key membership on a dict, element membership on
  a list, substring on a string, and \<^verbatim>\<open>TypeError\<close> on a value that is not a
  container.
\<close>

fun contains :: "jvalue \<Rightarrow> string \<Rightarrow> error + bool" where
  "contains (JObject kvs) k = Inr (k \<in> fst ` set kvs)"
| "contains (JArray xs) k = Inr (JString k \<in> set xs)"
| "contains (JString s) k = Inr (is_substring k s)"
| "contains JNull k = Inl TypeError"
| "contains (JBool b) k = Inl TypeError"
| "contains (JInt n) k = Inl TypeError"
| "contains (JFloat m e) k = Inl TypeError"

text \<open>
  \<^verbatim>\<open>d[k]\<close> with \<^verbatim>\<open>k\<close> a string: the value on a dict (\<^verbatim>\<open>KeyError\<close> when the key
  is missing), \<^verbatim>\<open>TypeError\<close> on everything else (a list or a string is indexed by
  integers only).
\<close>

fun getitem :: "jvalue \<Rightarrow> string \<Rightarrow> error + jvalue" where
  "getitem (JObject kvs) k = (case map_of kvs k of None \<Rightarrow> Inl KeyError | Some v \<Rightarrow> Inr v)"
| "getitem d k = Inl TypeError"

text \<open>\<^verbatim>\<open>str.isspace\<close>, \<^verbatim>\<open>str.strip\<close>, \<^verbatim>\<open>str.isdigit\<close> on code points below 256.\<close>

definition isspace_char :: "char \<Rightarrow> bool" where
  "isspace_char c =
     (let n = (of_char c :: nat)
      in (9 \<le> n \<and> n \<le> 13) \<or> (28 \<le> n \<and> n \<le> 32) \<or> n = 133 \<or> n = 160)"

definition strip :: "string \<Rightarrow> string" where
  "strip s = rev (dropWhile isspace_char (rev (dropWhile isspace_char s)))"

definition isdecimal_char :: "char \<Rightarrow> bool" where
  "isdecimal_char c = (let n = (of_char c :: nat) in 48 \<le> n \<and> n \<le> 57)"

text \<open>
  \<^verbatim>\<open>isdigit\<close> is true of the decimal digits and of the superscripts U+00B2, U+00B3
  and U+00B9; the empty string is not \<^verbatim>\<open>isdigit\<close>.
\<close>

definition isdigit_char :: "char \<Rightarrow> bool" where
  "isdigit_char c =
     (let n = (of_char c :: nat) in isdecimal_char c \<or> n = 178 \<or> n = 179 \<or> n = 185)"

definition isdigit :: "string \<Rightarrow> bool" where
  "isdigit s = (s \<noteq> [] \<and> list_all isdigit_char s)"

text \<open>
  \<^verbatim>\<open>int(s)\<close> on a text without sign, underscore or surrounding blanks, which is what
  reaches it after \<^verbatim>\<open>isdigit\<close> and \<^verbatim>\<open>strip\<close>: the decimal value, or
  \<^verbatim>\<open>ValueError\<close> when a character is not a decimal digit.
\<close>

definition digit_value :: "char \<Rightarrow> int" where
  "digit_value c = of_char c - 48"

definition py_int :: "string \<Rightarrow> error + int" where
  "py_int s =
     (if s \<noteq> [] \<and> list_all isdecimal_char s
      then Inr (foldl (\<lambda>acc c. 10 * acc + digit_value c) 0 s)
      else Inl ValueError)"

text \<open>
  The pattern \<^verbatim>\<open>^\+?[1-9]\d{6,14}$\<close> under \<^verbatim>\<open>re.match\<close>, on a stripped text (so
  no final newline for \<^verbatim>\<open>$\<close> to skip): an optional plus, a digit from 1 to 9, then
  6 to 14 decimal digits.
\<close>

definition phone_digits :: "string \<Rightarrow> bool" where
  "phone_digits s =
     (case s of
        [] \<Rightarrow> False
      | c # cs \<Rightarrow> isdecimal_char c \<and> c \<noteq> CHR ''0'' \<and> list_all isdecimal_char cs
                 \<and> 6 \<le> length cs \<and> length cs \<le> 14)"

definition phone_match :: "string \<Rightarrow> bool" where
  "phone_match s =
     (case s of
        [] \<Rightarrow> False
      | c # cs \<Rightarrow> if c = CHR ''+'' then phone_digits cs else phone_digits (c # cs))"

section \<open>The prompt session\<close>

text \<open>
  What the user does at a prompt: submit a line, or press CTRL+C. What the program
  shows: a \<^verbatim>\<open>print\<close>, the message of a prompt, the error message of a validator.
\<close>

datatype action = Enter string | CtrlC

datatype event = Print utext | Prompt utext | Invalid utext

text \<open>
  A step of the program that reads input either returns a value and the input that is
  left, is interrupted, raises, or is still waiting for the user when the input ends.
\<close>

datatype 'a step = Return 'a "action list" | KeyboardInterrupt | Raise error | Pending

text \<open>
  \<^verbatim>\<open>PromptSession.prompt\<close> with a validator: the message is shown once; a submitted
  line that fails the validator shows the error message and the prompt stays open; the
  first line that passes is returned as typed.
\<close>

fun validate_loop :: "(string \<Rightarrow> bool) \<Rightarrow> utext \<Rightarrow> action list \<Rightarrow> event list \<times> string step" where
  "validate_loop valid msg [] = ([], Pending)"
| "validate_loop valid msg (CtrlC # rest) = ([], KeyboardInterrupt)"
| "validate_loop valid msg (Enter t # rest) =
     (if valid t then ([], Return t rest)
      else (Invalid msg # fst (validate_loop valid msg rest),
            snd (validate_loop valid msg rest)))"

definition session_prompt ::
  "utext \<Rightarrow> (string \<Rightarrow> bool) \<Rightarrow> utext \<Rightarrow> action list \<Rightarrow> event list \<times> string step" where
  "session_prompt message valid error_message ins =
     (Prompt message # fst (validate_loop valid error_message ins),
      snd (validate_loop valid error_message ins))"

text \<open>Applying a function that may raise to the value a step returned.\<close>

fun and_then :: "'a step \<Rightarrow> ('a \<Rightarrow> error + 'b) \<Rightarrow> 'b step" where
  "and_then (Return x rest) g = (case g x of Inl e \<Rightarrow> Raise e | Inr y \<Rightarrow> Return y rest)"
| "and_then KeyboardInterrupt g = KeyboardInterrupt"
| "and_then (Raise e) g = Raise e"
| "and_then Pending g = Pending"

section \<open>The literal texts of the source\<close>

definition tip :: utext where
  "tip = ascii (CHR 10 # ''Tip: To obtain your API ID and API Hash, log in to your Telegram account at: https://my.telegram.org/auth?to=apps'')"

definition api_id_message :: utext where
  "api_id_message = 10148 # ascii '' Enter the Telegram API ID of your application: ''"

definition api_hash_message :: utext where
  "api_hash_message = 10148 # ascii '' Enter the Telegram API Hash of your application: ''"

definition bot_token_message :: utext where
  "bot_token_message = 10 # 10148 # ascii '' Enter your bot token obtained from BotFather: ''"

definition phone_number_message :: utext where
  "phone_number_message = 10 # 10148 # ascii '' Enter your phone number: ''"

definition api_id_error :: utext where
  "api_id_error = ascii ''Enter a numeric API ID''"

definition api_hash_error :: utext where
  "api_hash_error = ascii ''API Hash cannot be empty''"

definition bot_token_error :: utext where
  "bot_token_error = ascii ''Bot Token cannot be empty''"

definition phone_number_error :: utext where
  "phone_number_error =
     ascii ''Phone number should contain only digits, optionally starting with a +, and be 7''
     @ 8211 # ascii ''15 digits long.''"

definition cancel_notice :: utext where
  "cancel_notice = ascii [CHR 10, CHR 10] @ ascii ''Input canceled by user''"

section \<open>The four getters\<close>

text \<open>
  Each getter reads \<^verbatim>\<open>self.as_dict\<close>. The membership test comes first in
  \<^verbatim>\<open>("api_id" in self.as_dict) and not force_update\<close>, so it is evaluated whatever
  \<^verbatim>\<open>force_update\<close> is.
\<close>

definition get_api_id :: "jvalue \<Rightarrow> bool \<Rightarrow> action list \<Rightarrow> event list \<times> jvalue step" where
  "get_api_id as_dict force_update ins =
     (case contains as_dict ''api_id'' of
        Inl e \<Rightarrow> ([], Raise e)
      | Inr present \<Rightarrow>
          if present \<and> \<not> force_update
          then (case getitem as_dict ''api_id'' of
                  Inl e \<Rightarrow> ([], Raise e)
                | Inr v \<Rightarrow> ([], Return v ins))
          else (Print tip # fst (session_prompt api_id_message isdigit api_id_error ins),
                and_then (snd (session_prompt api_id_message isdigit api_id_error ins))
                  (\<lambda>api_id_text. map_sum id JInt (py_int (strip api_id_text)))))"

definition get_api_hash :: "jvalue \<Rightarrow> bool \<Rightarrow> action list \<Rightarrow> event list \<times> jvalue step" where
  "get_api_hash as_dict force_update ins =
     (case contains as_dict ''api_hash'' of
        Inl e \<Rightarrow> ([], Raise e)
      | Inr present \<Rightarrow>
          if present \<and> \<not> force_update
          then (case getitem as_dict ''api_hash'' of
                  Inl e \<Rightarrow> ([], Raise e)
                | Inr v \<Rightarrow> ([], Return v ins))
          else (Print tip
                  # fst (session_prompt api_hash_message (\<lambda>t. strip t \<noteq> []) api_hash_error ins),
                and_then
                  (snd (session_prompt api_hash_message (\<lambda>t. strip t \<noteq> []) api_hash_error ins))
                  (\<lambda>api_hash_text. Inr (JString (strip api_hash_text)))))"

definition get_bot_token :: "jvalue \<Rightarrow> bool \<Rightarrow> action list \<Rightarrow> event list \<times> jvalue step" where
  "get_bot_token as_dict force_update ins =
     (case contains as_dict ''bot_token'' of
        Inl e \<Rightarrow> ([], Raise e)
      | Inr present \<Rightarrow>
          if present \<and> \<not> force_update
          then (case getitem as_dict ''bot_token'' of
                  Inl e \<Rightarrow> ([], Raise e)
                | Inr v \<Rightarrow> ([], Return v ins))
          else (fst (session_prompt bot_token_message (\<lambda>t. strip t \<noteq> []) bot_token_error ins),
                and_then
                  (snd (session_prompt bot_token_message (\<lambda>t. strip t \<noteq> []) bot_token_error ins))
                  (\<lambda>bot_token_text. Inr (JString (strip bot_token_text)))))"

definition get_phone_number :: "jvalue \<Rightarrow> bool \<Rightarrow> action list \<Rightarrow> event list \<times> jvalue step" where
  "get_phone_number as_dict force_update ins =
     (case contains as_dict ''phone_number'' of
        Inl e \<Rightarrow> ([], Raise e)
      | Inr present \<Rightarrow>
          if present \<and> \<not> force_update
          then (case getitem as_dict ''phone_number'' of
                  Inl e \<Rightarrow> ([], Raise e)
                | Inr v \<Rightarrow> ([], Return v ins))
          else (fst (session_prompt phone_number_message (\<lambda>t. phone_match (strip t))
                       phone_number_error ins),
                and_then
                  (snd (session_prompt phone_number_message (\<lambda>t. phone_match (strip t))
                          phone_number_error ins))
                  (\<lambda>phone_number_text. Inr (JString (strip phone_number_text)))))"

section \<open>The constructor\<close>

text \<open>
  The config file: absent, or present. A file that is present is given by what
  \<^verbatim>\<open>open\<close> and \<^verbatim>\<open>json.load\<close> do with it: they return a value, or they raise.
  A text that is not JSON raises \<^verbatim>\<open>JSONDecodeError\<close>; bytes that are not UTF-8 raise
  \<^verbatim>\<open>UnicodeDecodeError\<close>, brackets nested too deep \<^verbatim>\<open>RecursionError\<close>, an
  integer literal of too many digits \<^verbatim>\<open>ValueError\<close>. \<^verbatim>\<open>json.dump\<close> writes a
  text that loads as the value dumped.
\<close>

datatype content = Fails error | Json jvalue

type_synonym file_state = "content option"

record flags =
  request_bot_token :: bool
  request_api_id :: bool
  request_api_hash :: bool
  request_phone_number :: bool
  force_update :: bool

definition default_flags :: flags where
  "default_flags =
     \<lparr>request_bot_token = True, request_api_id = False, request_api_hash = False,
      request_phone_number = False, force_update = False\<rparr>"

text \<open>The attributes the constructor assigns on \<^verbatim>\<open>self\<close>; \<open>None\<close> is "not set".\<close>

record attrs =
  api_id :: "jvalue option"
  api_hash :: "jvalue option"
  bot_token :: "jvalue option"
  phone_number :: "jvalue option"

definition no_attrs :: attrs where
  "no_attrs = \<lparr>api_id = None, api_hash = None, bot_token = None, phone_number = None\<rparr>"

text \<open>
  Lines 130 to 138: \<^verbatim>\<open>as_dict\<close> starts empty; an existing file is loaded, and the
  \<^verbatim>\<open>except\<close> clause catches \<^verbatim>\<open>json.JSONDecodeError\<close> only. Any other exception
  leaves the constructor.
\<close>

definition load :: "file_state \<Rightarrow> error + jvalue" where
  "load f =
     (case f of
        None \<Rightarrow> Inr (JObject [])
      | Some (Fails e) \<Rightarrow> if e = JSONDecodeError then Inr (JObject []) else Inl e
      | Some (Json v) \<Rightarrow> Inr v)"

text \<open>
  One \<^verbatim>\<open>if request_x: self.x = self._get_x(force_update)\<close> of the \<^verbatim>\<open>try\<close> block,
  run after the steps before it: it starts only when they returned, and adds what it
  shows to what they showed.
\<close>

definition field_step ::
  "bool \<Rightarrow> (action list \<Rightarrow> event list \<times> jvalue step) \<Rightarrow> (jvalue \<Rightarrow> attrs \<Rightarrow> attrs)
     \<Rightarrow> event list \<times> attrs step \<Rightarrow> event list \<times> attrs step" where
  "field_step requested getter assign prev =
     (case snd prev of
        Return a ins \<Rightarrow>
          if requested
          then (fst prev @ fst (getter ins),
                and_then (snd (getter ins)) (\<lambda>v. Inr (assign v a)))
          else prev
      | _ \<Rightarrow> prev)"

text \<open>Lines 141 to 156: the fields in the order api_id, api_hash, bot_token, phone_number.\<close>

definition resolve :: "jvalue \<Rightarrow> flags \<Rightarrow> action list \<Rightarrow> event list \<times> attrs step" where
  "resolve as_dict fl ins =
     field_step (request_phone_number fl) (get_phone_number as_dict (force_update fl))
         (\<lambda>v a. a\<lparr>phone_number := Some v\<rparr>)
       (field_step (request_bot_token fl) (get_bot_token as_dict (force_update fl))
           (\<lambda>v a. a\<lparr>bot_token := Some v\<rparr>)
         (field_step (request_api_hash fl) (get_api_hash as_dict (force_update fl))
             (\<lambda>v a. a\<lparr>api_hash := Some v\<rparr>)
           (field_step (request_api_id fl) (get_api_id as_dict (force_update fl))
               (\<lambda>v a. a\<lparr>api_id := Some v\<rparr>)
             ([], Return no_attrs ins))))"

text \<open>
  Lines 164 to 168: the dict literal reads three attributes; reading one that was never
  assigned raises \<^verbatim>\<open>AttributeError\<close>.
\<close>

definition build_dict :: "attrs \<Rightarrow> error + jvalue" where
  "build_dict a =
     (case api_id a of
        None \<Rightarrow> Inl AttributeError
      | Some i \<Rightarrow>
          (case api_hash a of
             None \<Rightarrow> Inl AttributeError
           | Some h \<Rightarrow>
               (case bot_token a of
                  None \<Rightarrow> Inl AttributeError
                | Some b \<Rightarrow>
                    Inr (JObject [(''api_id'', i), (''api_hash'', h), (''bot_token'', b)]))))"

text \<open>
  How a call of the constructor ends: the object is built (its attributes and its
  \<^verbatim>\<open>as_dict\<close>), the process exits with a status, an exception reaches the caller, or
  the program is still at a prompt when the input ends.
\<close>

datatype outcome = Constructed attrs jvalue | Exit nat | Raised error | Blocked

record result =
  shown :: "event list"
  file_after :: file_state
  outcome :: outcome

definition Config_init :: "file_state \<Rightarrow> flags \<Rightarrow> action list \<Rightarrow> result" where
  "Config_init config_file fl ins =
     (case load config_file of
        Inl e \<Rightarrow> \<lparr>shown = [], file_after = config_file, outcome = Raised e\<rparr>
      | Inr as_dict \<Rightarrow>
          (case resolve as_dict fl ins of
             (es, KeyboardInterrupt) \<Rightarrow>
               \<lparr>shown = es @ [Print cancel_notice], file_after = config_file,
                outcome = Exit 0\<rparr>
           | (es, Raise e) \<Rightarrow> \<lparr>shown = es, file_after = config_file, outcome = Raised e\<rparr>
           | (es, Pending) \<Rightarrow> \<lparr>shown = es, file_after = config_file, outcome = Blocked\<rparr>
           | (es, Return a rest) \<Rightarrow>
               (case build_dict a of
                  Inl e \<Rightarrow> \<lparr>shown = es, file_after = config_file, outcome = Raised e\<rparr>
                | Inr d \<Rightarrow>
                    \<lparr>shown = es, file_after = Some (Json d), outcome = Constructed a d\<rparr>)))"

section \<open>Auxiliary definitions\<close>

text \<open>
  What a step does when the user's input goes on after the point where it ran out,
  starting with CTRL+C: a step that had returned keeps its value and has more input
  left, a step that was waiting at a prompt is interrupted.
\<close>

definition extend :: "action list \<Rightarrow> event list \<times> 'a step \<Rightarrow> event list \<times> 'a step" where
  "extend ys s =
     (fst s,
      case snd s of
        Return x rest \<Rightarrow> Return x (rest @ ys)
      | KeyboardInterrupt \<Rightarrow> KeyboardInterrupt
      | Raise e \<Rightarrow> Raise e
      | Pending \<Rightarrow> KeyboardInterrupt)"

text \<open>
  Two calls used in the examples: \<^verbatim>\<open>Config(request_api_id=True, request_api_hash=True)\<close>,
  the call of the Pyrogram and Telethon examples, and the same with
  \<^verbatim>\<open>request_phone_number=True\<close>.
\<close>

definition three_flags :: flags where
  "three_flags =
     \<lparr>request_bot_token = True, request_api_id = True, request_api_hash = True,
      request_phone_number = False, force_update = False\<rparr>"

definition all_flags :: flags where
  "all_flags =
     \<lparr>request_bot_token = True, request_api_id = True, request_api_hash = True,
      request_phone_number = True, force_update = False\<rparr>"






section \<open>Evaluation\<close>

lemmas run_simps = Config_init_def resolve_def field_step_def load_def build_dict_def
  no_attrs_def get_api_id_def get_api_hash_def get_bot_token_def get_phone_number_def
  session_prompt_def strip_def isspace_char_def isdigit_def isdigit_char_def
  isdecimal_char_def py_int_def digit_value_def phone_match_def phone_digits_def

lemma Config_init_load_raises:
  "load f = Inl e \<Longrightarrow>
   Config_init f fl ins = \<lparr>shown = [], file_after = f, outcome = Raised e\<rparr>"
  by (simp add: Config_init_def)

lemma Config_init_loaded:
  "load f = Inr as_dict \<Longrightarrow> resolve as_dict fl ins = (es, st) \<Longrightarrow>
   Config_init f fl ins =
     (case st of
        Return a rest \<Rightarrow>
          (case build_dict a of
             Inl e \<Rightarrow> \<lparr>shown = es, file_after = f, outcome = Raised e\<rparr>
           | Inr d \<Rightarrow> \<lparr>shown = es, file_after = Some (Json d), outcome = Constructed a d\<rparr>)
      | KeyboardInterrupt \<Rightarrow>
          \<lparr>shown = es @ [Print cancel_notice], file_after = f, outcome = Exit 0\<rparr>
      | Raise e \<Rightarrow> \<lparr>shown = es, file_after = f, outcome = Raised e\<rparr>
      | Pending \<Rightarrow> \<lparr>shown = es, file_after = f, outcome = Blocked\<rparr>)"
  by (simp add: Config_init_def split: step.splits)

text \<open>Scenarios of the specification, at the getters.\<close>

lemma scenario_stored_api_id:
  "get_api_id (JObject [(''api_id'', JInt 12345)]) False ins = ([], Return (JInt 12345) ins)"
  by (simp add: run_simps)

lemma scenario_api_id_retry:
  "get_api_id (JObject []) False [Enter ''abc'', Enter ''98765'']
     = ([Print tip, Prompt api_id_message, Invalid api_id_error], Return (JInt 98765) [])"
  by (simp add: run_simps)

lemma scenario_phone_number:
  "get_phone_number (JObject []) False [Enter ''123'', Enter ''15551234567'']
     = ([Prompt phone_number_message, Invalid phone_number_error],
        Return (JString ''15551234567'') [])"
  by (simp add: run_simps)

text \<open>
  \<^verbatim>\<open>isdigit\<close> accepts a superscript digit, which \<^verbatim>\<open>int\<close> rejects: the
  \<^verbatim>\<open>ValueError\<close> is not caught by the constructor.
\<close>

lemma api_id_superscript_raises:
  "Config_init None three_flags [Enter [CHR 0xB2]]
     = \<lparr>shown = [Print tip, Prompt api_id_message], file_after = None,
        outcome = Raised ValueError\<rparr>"
  by (simp add: run_simps three_flags_def)

section \<open>Stored values\<close>

lemma map_of_present: "map_of kvs k = Some v \<Longrightarrow> k \<in> fst ` set kvs"
  by (metis domI dom_map_of_conv_image_fst)

lemma get_api_id_stored:
  "map_of kvs ''api_id'' = Some v \<Longrightarrow>
   get_api_id (JObject kvs) False ins = ([], Return v ins)"
  by (simp add: get_api_id_def map_of_present)

lemma get_api_hash_stored:
  "map_of kvs ''api_hash'' = Some v \<Longrightarrow>
   get_api_hash (JObject kvs) False ins = ([], Return v ins)"
  by (simp add: get_api_hash_def map_of_present)

lemma get_bot_token_stored:
  "map_of kvs ''bot_token'' = Some v \<Longrightarrow>
   get_bot_token (JObject kvs) False ins = ([], Return v ins)"
  by (simp add: get_bot_token_def map_of_present)

lemma get_phone_number_stored:
  "map_of kvs ''phone_number'' = Some v \<Longrightarrow>
   get_phone_number (JObject kvs) False ins = ([], Return v ins)"
  by (simp add: get_phone_number_def map_of_present)

text \<open>
  With api_id, api_hash and bot_token requested and stored, \<^verbatim>\<open>force_update\<close> false and
  phone_number not requested, the constructor shows nothing, reads no input and builds
  the object from the stored values, whatever JSON values they are.
\<close>

lemma stored_fields_reused:
  assumes "map_of kvs ''api_id'' = Some i" and "map_of kvs ''api_hash'' = Some h"
    and "map_of kvs ''bot_token'' = Some b"
    and "request_api_id fl" and "request_api_hash fl" and "request_bot_token fl"
    and "\<not> request_phone_number fl" and "\<not> force_update fl"
  shows "Config_init (Some (Json (JObject kvs))) fl ins
           = \<lparr>shown = [],
              file_after = Some (Json (JObject
                [(''api_id'', i), (''api_hash'', h), (''bot_token'', b)])),
              outcome = Constructed
                \<lparr>api_id = Some i, api_hash = Some h, bot_token = Some b, phone_number = None\<rparr>
                (JObject [(''api_id'', i), (''api_hash'', h), (''bot_token'', b)])\<rparr>"
  using assms
  by (simp add: Config_init_def load_def resolve_def field_step_def build_dict_def no_attrs_def
      get_api_id_stored get_api_hash_stored get_bot_token_stored)


section \<open>Forced update\<close>










section \<open>What is written\<close>

text \<open>
  C3: a call that builds the object has written the file, and the record written (which
  is also \<^verbatim>\<open>as_dict\<close>) has exactly the keys api_id, api_hash and bot_token, in that
  order; phone_number is not among them, whatever the flags and the input were. Every
  other call leaves the file as it was.
\<close>

theorem written_file_keys:
  "case outcome (Config_init f fl ins) of
     Constructed a d \<Rightarrow>
       file_after (Config_init f fl ins) = Some (Json d) \<and>
       (\<exists>i h b. d = JObject [(''api_id'', i), (''api_hash'', h), (''bot_token'', b)]) \<and>
       contains d ''phone_number'' = Inr False
   | _ \<Rightarrow> file_after (Config_init f fl ins) = f"
proof (cases "load f")
  case (Inl e)
  then show ?thesis by (simp add: Config_init_load_raises)
next
  case (Inr as_dict)
  obtain es st where r: "resolve as_dict fl ins = (es, st)"
    by (cases "resolve as_dict fl ins")
  show ?thesis
  proof (cases st)
    case (Return a rest)
    then show ?thesis
      unfolding Config_init_loaded [OF Inr r]
      by (auto simp: build_dict_def split: option.splits)
  qed (simp_all add: Config_init_loaded [OF Inr r])
qed

text \<open>
  With all four fields requested and a phone number resolved, the record written has the
  three keys.
\<close>

theorem written_file_keys_witness:
  "file_after (Config_init None all_flags
       [Enter ''12345'', Enter ''0123abc'', Enter ''123456:ABC-DEF'', Enter ''15551234567''])
     = Some (Json (JObject [(''api_id'', JInt 12345), (''api_hash'', JString ''0123abc''),
                            (''bot_token'', JString ''123456:ABC-DEF'')]))"
  using written_file_keys [of None all_flags
      "[Enter ''12345'', Enter ''0123abc'', Enter ''123456:ABC-DEF'', Enter ''15551234567'']"]
  by (simp add: run_simps all_flags_def)

text \<open>
  C2: the written file should hold every field resolved in the run, a resolved
  phone_number included. The run below resolves all four fields (\<^verbatim>\<open>self.phone_number\<close>
  is set), and the file it writes has api_id, api_hash and bot_token but no phone_number.
\<close>

theorem phone_number_not_persisted:
  "Config_init None all_flags
       [Enter ''12345'', Enter ''0123abc'', Enter ''123456:ABC-DEF'', Enter ''+15551234567'']
     = \<lparr>shown = [Print tip, Prompt api_id_message, Print tip, Prompt api_hash_message,
                 Prompt bot_token_message, Prompt phone_number_message],
        file_after = Some (Json (JObject [(''api_id'', JInt 12345),
                       (''api_hash'', JString ''0123abc''),
                       (''bot_token'', JString ''123456:ABC-DEF'')])),
        outcome = Constructed
          \<lparr>api_id = Some (JInt 12345), api_hash = Some (JString ''0123abc''),
           bot_token = Some (JString ''123456:ABC-DEF''),
           phone_number = Some (JString ''+15551234567'')\<rparr>
          (JObject [(''api_id'', JInt 12345), (''api_hash'', JString ''0123abc''),
                    (''bot_token'', JString ''123456:ABC-DEF'')])\<rparr>"
  by (simp add: run_simps all_flags_def)

section \<open>Unset attributes\<close>

lemma field_step_Return_D:
  assumes "snd (field_step r g assign prev) = Return a' rest'"
  shows "\<exists>a rest. snd prev = Return a rest \<and> (if r then \<exists>v. a' = assign v a else a' = a)"
proof (cases "snd prev")
  case (Return a rest)
  show ?thesis
  proof (cases r)
    case True
    then show ?thesis
      using assms Return
      by (cases "snd (g rest)") (auto simp: field_step_def)
  next
    case False
    then show ?thesis using assms Return by (simp add: field_step_def)
  qed
qed (use assms in \<open>simp_all add: field_step_def\<close>)

lemma resolve_attrs:
  assumes "snd (resolve d fl ins) = Return a rest"
  shows "(api_id a \<noteq> None \<longleftrightarrow> request_api_id fl) \<and>
         (api_hash a \<noteq> None \<longleftrightarrow> request_api_hash fl) \<and>
         (bot_token a \<noteq> None \<longleftrightarrow> request_bot_token fl) \<and>
         (phone_number a \<noteq> None \<longleftrightarrow> request_phone_number fl)"
proof -
  from assms obtain a3 r3 where
    s3: "snd (field_step (request_bot_token fl) (get_bot_token d (force_update fl))
           (\<lambda>v a. a\<lparr>bot_token := Some v\<rparr>)
         (field_step (request_api_hash fl) (get_api_hash d (force_update fl))
             (\<lambda>v a. a\<lparr>api_hash := Some v\<rparr>)
           (field_step (request_api_id fl) (get_api_id d (force_update fl))
               (\<lambda>v a. a\<lparr>api_id := Some v\<rparr>)
             ([], Return no_attrs ins)))) = Return a3 r3"
    and a: "if request_phone_number fl then \<exists>v. a = a3\<lparr>phone_number := Some v\<rparr> else a = a3"
    unfolding resolve_def by (blast dest: field_step_Return_D)
  from s3 obtain a2 r2 where
    s2: "snd (field_step (request_api_hash fl) (get_api_hash d (force_update fl))
             (\<lambda>v a. a\<lparr>api_hash := Some v\<rparr>)
           (field_step (request_api_id fl) (get_api_id d (force_update fl))
               (\<lambda>v a. a\<lparr>api_id := Some v\<rparr>)
             ([], Return no_attrs ins))) = Return a2 r2"
    and a3: "if request_bot_token fl then \<exists>v. a3 = a2\<lparr>bot_token := Some v\<rparr> else a3 = a2"
    by (blast dest: field_step_Return_D)
  from s2 obtain a1 r1 where
    s1: "snd (field_step (request_api_id fl) (get_api_id d (force_update fl))
               (\<lambda>v a. a\<lparr>api_id := Some v\<rparr>)
             ([], Return no_attrs ins)) = Return a1 r1"
    and a2: "if request_api_hash fl then \<exists>v. a2 = a1\<lparr>api_hash := Some v\<rparr> else a2 = a1"
    by (blast dest: field_step_Return_D)
  from s1 have a1: "if request_api_id fl then \<exists>v. a1 = no_attrs\<lparr>api_id := Some v\<rparr> else a1 = no_attrs"
    by (auto dest: field_step_Return_D)
  show ?thesis
    using a a3 a2 a1 by (auto simp: no_attrs_def split: if_splits)
qed

text \<open>The file is written only by a call that requested api_id, api_hash and bot_token.\<close>

lemma write_needs_three_flags:
  assumes "outcome (Config_init f fl ins) = Constructed a d"
  shows "request_api_id fl \<and> request_api_hash fl \<and> request_bot_token fl"
proof (cases "load f")
  case (Inl e)
  then show ?thesis using assms by (simp add: Config_init_load_raises)
next
  case (Inr as_dict)
  obtain es st where r: "resolve as_dict fl ins = (es, st)"
    by (cases "resolve as_dict fl ins")
  obtain rest where st: "st = Return a rest" and bd: "build_dict a = Inr d"
    using assms by (cases st) (auto simp: Config_init_loaded [OF Inr r] split: sum.splits)
  have "snd (resolve as_dict fl ins) = Return a rest"
    using r st by simp
  from resolve_attrs [OF this] bd show ?thesis
    by (auto simp: build_dict_def split: option.splits)
qed

text \<open>
  C1: the call \<^verbatim>\<open>Config()\<close> with no config file, the user entering a valid bot
  token. The dict literal reads \<^verbatim>\<open>self.api_id\<close>, which was never assigned: the call
  ends in \<^verbatim>\<open>AttributeError\<close> and no file is written.
\<close>

theorem default_run_raises:
  "Config_init None default_flags [Enter ''123456:ABC-DEF'']
     = \<lparr>shown = [Prompt bot_token_message], file_after = None,
        outcome = Raised AttributeError\<rparr>"
  by (simp add: run_simps default_flags_def)

section \<open>The api_id validator\<close>

text \<open>
  C4: the text \<^verbatim>\<open>" 123 "\<close> is all digits once trimmed, and the getter trims before
  \<^verbatim>\<open>int\<close>; but the validator is given the text as typed and rejects it, showing
  "Enter a numeric API ID". The bot token validator, which trims, accepts the same text.
\<close>

theorem api_id_validator_untrimmed:
  "strip '' 123 '' = ''123'' \<and> isdigit (strip '' 123 '') \<and> \<not> isdigit '' 123 '' \<and>
   get_api_id (JObject []) False [Enter '' 123 '']
     = ([Print tip, Prompt api_id_message, Invalid api_id_error], Pending) \<and>
   get_bot_token (JObject []) False [Enter '' 123 '']
     = ([Prompt bot_token_message], Return (JString ''123'') [])"
  by (simp add: run_simps)

section \<open>Interrupt\<close>

lemma validate_loop_interrupt:
  "validate_loop valid msg (pre @ CtrlC # post) = extend (CtrlC # post) (validate_loop valid msg pre)"
proof (induction pre)
  case Nil
  show ?case by (simp add: extend_def)
next
  case (Cons x pre)
  show ?case
  proof (cases x)
    case (Enter t)
    with Cons show ?thesis by (simp add: extend_def)
  next
    case CtrlC
    then show ?thesis by (simp add: extend_def)
  qed
qed

lemma and_then_extend:
  "and_then (snd (extend ys s)) g = snd (extend ys (es, and_then (snd s) g))"
  by (cases "snd s") (auto simp: extend_def split: sum.splits)

lemma fst_extend: "fst (extend ys s) = fst s"
  by (simp add: extend_def)

lemma session_prompt_interrupt:
  "session_prompt m valid em (pre @ CtrlC # post) = extend (CtrlC # post) (session_prompt m valid em pre)"
  by (simp add: session_prompt_def validate_loop_interrupt extend_def)

lemma get_api_id_interrupt:
  "get_api_id d fu (pre @ CtrlC # post) = extend (CtrlC # post) (get_api_id d fu pre)"
  unfolding get_api_id_def
  by (simp add: session_prompt_interrupt fst_extend and_then_extend [where es = "[]"] 
       split: sum.splits) (simp add: extend_def)


lemma get_api_hash_interrupt:
  "get_api_hash d fu (pre @ CtrlC # post) = extend (CtrlC # post) (get_api_hash d fu pre)"
  unfolding get_api_hash_def
  by (simp add: session_prompt_interrupt fst_extend and_then_extend [where es = "[]"]
       split: sum.splits) (simp add: extend_def)

lemma get_bot_token_interrupt:
  "get_bot_token d fu (pre @ CtrlC # post) = extend (CtrlC # post) (get_bot_token d fu pre)"
  unfolding get_bot_token_def
  by (simp add: session_prompt_interrupt fst_extend and_then_extend [where es = "[]"]
       split: sum.splits) (simp add: extend_def)

lemma get_phone_number_interrupt:
  "get_phone_number d fu (pre @ CtrlC # post) = extend (CtrlC # post) (get_phone_number d fu pre)"
  unfolding get_phone_number_def
  by (simp add: session_prompt_interrupt fst_extend and_then_extend [where es = "[]"]
       split: sum.splits) (simp add: extend_def)

lemma field_step_interrupt:
  assumes "\<And>ins. getter (ins @ ys) = extend ys (getter ins)"
  shows "field_step requested getter assign (extend ys prev)
           = extend ys (field_step requested getter assign prev)"
proof (cases "snd prev")
  case (Return a rest)
  show ?thesis
  proof (cases requested)
    case True
    have "snd (extend ys prev) = Return a (rest @ ys)"
      using Return by (simp add: extend_def)
    then show ?thesis
      using Return True assms [of rest]
      by (cases "snd (getter rest)") (simp_all add: field_step_def extend_def)
  next
    case False
    then show ?thesis using Return by (simp add: field_step_def extend_def)
  qed
next
  case KeyboardInterrupt
  then show ?thesis by (simp add: field_step_def extend_def)
next
  case (Raise e)
  then show ?thesis by (simp add: field_step_def extend_def)
next
  case Pending
  then show ?thesis by (simp add: field_step_def extend_def)
qed

lemma resolve_interrupt:
  "resolve d fl (pre @ CtrlC # post) = extend (CtrlC # post) (resolve d fl pre)"
proof -
  have start: "([], Return no_attrs (pre @ CtrlC # post))
                 = extend (CtrlC # post) ([], Return no_attrs pre)"
    by (simp add: extend_def)
  have a: "\<And>r g prev. field_step r (get_api_id d (force_update fl)) g (extend (CtrlC # post) prev)
           = extend (CtrlC # post) (field_step r (get_api_id d (force_update fl)) g prev)"
    by (rule field_step_interrupt) (rule get_api_id_interrupt)
  have b: "\<And>r g prev. field_step r (get_api_hash d (force_update fl)) g (extend (CtrlC # post) prev)
           = extend (CtrlC # post) (field_step r (get_api_hash d (force_update fl)) g prev)"
    by (rule field_step_interrupt) (rule get_api_hash_interrupt)
  have c: "\<And>r g prev. field_step r (get_bot_token d (force_update fl)) g (extend (CtrlC # post) prev)
           = extend (CtrlC # post) (field_step r (get_bot_token d (force_update fl)) g prev)"
    by (rule field_step_interrupt) (rule get_bot_token_interrupt)
  have e: "\<And>r g prev. field_step r (get_phone_number d (force_update fl)) g (extend (CtrlC # post) prev)
           = extend (CtrlC # post) (field_step r (get_phone_number d (force_update fl)) g prev)"
    by (rule field_step_interrupt) (rule get_phone_number_interrupt)
  show ?thesis
    unfolding resolve_def start by (simp only: a b c e)
qed

text \<open>
  C7: when the program is waiting at a prompt (the call is blocked after the input
  \<open>pre\<close>) and the user presses CTRL+C, the call prints the cancellation notice after
  what it had shown, exits with status 0 and leaves the config file as it was, whatever
  would have been typed afterwards. No exception reaches the caller.
\<close>

theorem interrupt_exits_cleanly:
  assumes "outcome (Config_init f fl pre) = Blocked"
  shows "Config_init f fl (pre @ CtrlC # post)
           = \<lparr>shown = shown (Config_init f fl pre) @ [Print cancel_notice],
              file_after = f, outcome = Exit 0\<rparr>"
proof (cases "load f")
  case (Inl e)
  then show ?thesis using assms by (simp add: Config_init_load_raises)
next
  case (Inr as_dict)
  obtain es st where r: "resolve as_dict fl pre = (es, st)"
    by (cases "resolve as_dict fl pre")
  have "st = Pending"
    using assms by (cases st) (auto simp: Config_init_loaded [OF Inr r] split: sum.splits)
  then show ?thesis
    using r Inr by (simp add: Config_init_def resolve_interrupt extend_def)
qed


text \<open>
  A file with a bot token, the three fields requested: the user fails the API ID prompt
  once, passes it, and presses CTRL+C at the API Hash prompt.
\<close>

theorem interrupt_exits_cleanly_witness:
  "outcome (Config_init (Some (Json (JObject [(''bot_token'', JString ''old'')]))) three_flags
      [Enter ''abc'', Enter ''12345'']) = Blocked \<and>
   Config_init (Some (Json (JObject [(''bot_token'', JString ''old'')]))) three_flags
      ([Enter ''abc'', Enter ''12345''] @ CtrlC # [Enter ''0123abc''])
     = \<lparr>shown = [Print tip, Prompt api_id_message, Invalid api_id_error, Print tip,
                 Prompt api_hash_message, Print cancel_notice],
        file_after = Some (Json (JObject [(''bot_token'', JString ''old'')])),
        outcome = Exit 0\<rparr>"
proof -
  have h: "outcome (Config_init (Some (Json (JObject [(''bot_token'', JString ''old'')])))
      three_flags [Enter ''abc'', Enter ''12345'']) = Blocked"
    by (simp add: run_simps three_flags_def)
  have "shown (Config_init (Some (Json (JObject [(''bot_token'', JString ''old'')])))
      three_flags [Enter ''abc'', Enter ''12345''])
     = [Print tip, Prompt api_id_message, Invalid api_id_error, Print tip,
        Prompt api_hash_message]"
    by (simp add: run_simps three_flags_def)
  then show ?thesis
    using h interrupt_exits_cleanly [OF h, of "[Enter ''0123abc'']"] by simp
qed

section \<open>Loading\<close>




text \<open>
  C10: a file holding a JSON value that is not a container (null, a boolean, a number
  such as 123) is loaded as that value. As soon as one field is requested, the first
  membership test raises \<^verbatim>\<open>TypeError\<close>, which reaches the caller: nothing is shown
  and the file is left as it was, with or without \<^verbatim>\<open>force_update\<close>.
\<close>

theorem non_record_json_raises:
  assumes "v = JNull \<or> v = JBool b \<or> v = JInt n \<or> v = JFloat m e"
    and "request_api_id fl \<or> request_api_hash fl \<or> request_bot_token fl \<or> request_phone_number fl"
  shows "load (Some (Json v)) = Inr v \<and>
         Config_init (Some (Json v)) fl ins
           = \<lparr>shown = [], file_after = Some (Json v), outcome = Raised TypeError\<rparr>"
proof -
  have g: "get_api_id v (force_update fl) = (\<lambda>ins. ([], Raise TypeError))"
      "get_api_hash v (force_update fl) = (\<lambda>ins. ([], Raise TypeError))"
      "get_bot_token v (force_update fl) = (\<lambda>ins. ([], Raise TypeError))"
      "get_phone_number v (force_update fl) = (\<lambda>ins. ([], Raise TypeError))"
    using assms(1)
    by (auto simp: get_api_id_def get_api_hash_def get_bot_token_def get_phone_number_def)
  have "resolve v fl ins = ([], Raise TypeError)"
    using assms(2) by (auto simp: resolve_def g field_step_def)
  then show ?thesis
    by (simp add: Config_init_def load_def)
qed


theorem non_record_json_raises_witness:
  "load (Some (Json (JInt 123))) = Inr (JInt 123) \<and>
   Config_init (Some (Json (JInt 123))) default_flags [Enter ''123456:ABC-DEF'']
     = \<lparr>shown = [], file_after = Some (Json (JInt 123)), outcome = Raised TypeError\<rparr>"
  using non_record_json_raises [of "JInt 123" _ 123 _ _ default_flags "[Enter ''123456:ABC-DEF'']"]
  by (simp add: default_flags_def)

section \<open>Round trip\<close>

lemma validate_loop_events:
  "set (fst (validate_loop valid msg ins)) \<subseteq> {Invalid msg}"
  by (induction valid msg ins rule: validate_loop.induct) auto

lemma get_phone_number_events:
  "set (fst (get_phone_number d fu ins))
     \<subseteq> {Prompt phone_number_message, Invalid phone_number_error}"
  using validate_loop_events [of "\<lambda>t. phone_match (strip t)" phone_number_error ins]
  by (auto simp: get_phone_number_def session_prompt_def split: sum.splits)

lemma messages_distinct:
  "api_id_message \<noteq> phone_number_message"
  "api_hash_message \<noteq> phone_number_message"
  "bot_token_message \<noteq> phone_number_message"
  by (simp_all add: api_id_message_def api_hash_message_def bot_token_message_def
      phone_number_message_def ascii_def)


lemma Config_init_shown:
  assumes "load f = Inr as_dict"
  shows "set (shown (Config_init f fl ins))
           \<subseteq> set (fst (resolve as_dict fl ins)) \<union> {Print cancel_notice}"
proof -
  obtain es st where r: "resolve as_dict fl ins = (es, st)"
    by (cases "resolve as_dict fl ins")
  show ?thesis
    by (cases st) (auto simp: Config_init_loaded [OF assms r] r split: sum.splits)
qed

text \<open>
  C9: after a call that wrote the file, a second call on the written file with the same
  flags and \<^verbatim>\<open>force_update\<close> false, whatever its input \<open>ins2\<close>: it issues no prompt
  for api_id, api_hash or bot_token; if phone_number is not requested it shows nothing
  and builds the same object on the same file; if phone_number is requested and the
  user enters a valid number at once, it builds the object; and whenever it builds an
  object, api_id, api_hash and bot_token have the values of the first call.
\<close>

theorem round_trip:
  fixes f fl ins ins2
  defines "r2 \<equiv> Config_init (file_after (Config_init f fl ins)) (fl\<lparr>force_update := False\<rparr>) ins2"
  assumes "outcome (Config_init f fl ins) = Constructed a d"
  shows "Prompt api_id_message \<notin> set (shown r2) \<and>
         Prompt api_hash_message \<notin> set (shown r2) \<and>
         Prompt bot_token_message \<notin> set (shown r2) \<and>
         (\<not> request_phone_number fl \<longrightarrow>
            r2 = \<lparr>shown = [], file_after = Some (Json d), outcome = Constructed a d\<rparr>) \<and>
         (\<forall>p rest. request_phone_number fl \<and> ins2 = Enter p # rest \<and> phone_match (strip p) \<longrightarrow>
            outcome r2 = Constructed (a\<lparr>phone_number := Some (JString (strip p))\<rparr>) d) \<and>
         (\<forall>a2 d2. outcome r2 = Constructed a2 d2 \<longrightarrow>
            api_id a2 = api_id a \<and> api_hash a2 = api_hash a \<and> bot_token a2 = bot_token a \<and>
            d2 = d)"
proof -
  obtain as_dict where lf: "load f = Inr as_dict"
    using assms(2) by (cases "load f") (simp_all add: Config_init_load_raises)
  obtain es st where r: "resolve as_dict fl ins = (es, st)"
    by (cases "resolve as_dict fl ins")
  obtain rest where st: "st = Return a rest" and bd: "build_dict a = Inr d"
    and fa: "file_after (Config_init f fl ins) = Some (Json d)"
    using assms(2) by (cases st) (auto simp: Config_init_loaded [OF lf r] split: sum.splits)
  obtain i h b where ai: "api_id a = Some i" and ah: "api_hash a = Some h"
    and ab: "bot_token a = Some b"
    and d: "d = JObject [(''api_id'', i), (''api_hash'', h), (''bot_token'', b)]"
    using bd by (auto simp: build_dict_def split: option.splits)
  have "snd (resolve as_dict fl ins) = Return a rest"
    using r st by simp
  from resolve_attrs [OF this] ai ah ab
  have req: "request_api_id fl" "request_api_hash fl" "request_bot_token fl"
    and ph: "phone_number a \<noteq> None \<longleftrightarrow> request_phone_number fl"
    by auto
  define a3 where "a3 = \<lparr>api_id = Some i, api_hash = Some h, bot_token = Some b,
                           phone_number = None\<rparr>"
  have bd3: "\<And>p. build_dict (a3\<lparr>phone_number := p\<rparr>) = Inr d" "build_dict a3 = Inr d"
    by (simp_all add: build_dict_def a3_def d)
  have f3: "\<And>p. api_id (a3\<lparr>phone_number := p\<rparr>) = Some i"
      "\<And>p. api_hash (a3\<lparr>phone_number := p\<rparr>) = Some h"
      "\<And>p. bot_token (a3\<lparr>phone_number := p\<rparr>) = Some b"
    by (simp_all add: a3_def)
  have res2: "resolve d (fl\<lparr>force_update := False\<rparr>) ins2
          = field_step (request_phone_number fl) (get_phone_number d False)
              (\<lambda>v a. a\<lparr>phone_number := Some v\<rparr>) ([], Return a3 ins2)"
    by (simp add: resolve_def field_step_def req d get_api_id_stored get_api_hash_stored
        get_bot_token_stored no_attrs_def a3_def)
  have r2: "r2 = Config_init (Some (Json d)) (fl\<lparr>force_update := False\<rparr>) ins2"
    by (simp add: r2_def fa)
  have ld: "load (Some (Json d)) = Inr d"
    by (simp add: load_def)
  have "set (fst (resolve d (fl\<lparr>force_update := False\<rparr>) ins2))
          \<subseteq> {Prompt phone_number_message, Invalid phone_number_error}"
    using get_phone_number_events [of d False ins2]
    by (auto simp: res2 field_step_def)
  then have sh: "set (shown r2)
     \<subseteq> {Prompt phone_number_message, Invalid phone_number_error, Print cancel_notice}"
    using Config_init_shown [OF ld, of "fl\<lparr>force_update := False\<rparr>" ins2]
    by (auto simp: r2)
  have no_prompt: "Prompt api_id_message \<notin> set (shown r2)"
      "Prompt api_hash_message \<notin> set (shown r2)"
      "Prompt bot_token_message \<notin> set (shown r2)"
    using sh messages_distinct by auto
  have no_phone: "r2 = \<lparr>shown = [], file_after = Some (Json d), outcome = Constructed a d\<rparr>"
    if "\<not> request_phone_number fl"
  proof -
    have "a = a3"
      using ai ah ab ph that by (simp add: a3_def)
    then show ?thesis
      using that by (simp add: r2 Config_init_def ld res2 field_step_def bd3)
  qed
  have same: "api_id a2 = api_id a \<and> api_hash a2 = api_hash a \<and> bot_token a2 = bot_token a \<and> d2 = d"
    if c: "outcome r2 = Constructed a2 d2" for a2 d2
  proof (cases "request_phone_number fl")
    case False
    then show ?thesis
      using no_phone c ai ah ab by simp
  next
    case True
    have res: "resolve d (fl\<lparr>force_update := False\<rparr>) ins2
       = (fst (get_phone_number d False ins2),
          and_then (snd (get_phone_number d False ins2)) (\<lambda>v. Inr (a3\<lparr>phone_number := Some v\<rparr>)))"
      using True by (simp add: res2 field_step_def)
    show ?thesis
      using c ai ah ab
      by (cases "snd (get_phone_number d False ins2)")
        (auto simp: r2 Config_init_def ld res bd3 f3)
  qed
  have with_phone:
    "outcome r2 = Constructed (a\<lparr>phone_number := Some (JString (strip p))\<rparr>) d"
    if "request_phone_number fl" and i2: "ins2 = Enter p # rest" and "phone_match (strip p)"
    for p rest
  proof -
    have "a\<lparr>phone_number := Some (JString (strip p))\<rparr>
            = a3\<lparr>phone_number := Some (JString (strip p))\<rparr>"
      using ai ah ab by (simp add: a3_def)
    moreover have "get_phone_number d False (Enter p # rest)
            = ([Prompt phone_number_message], Return (JString (strip p)) rest)"
      using that(3) by (simp add: get_phone_number_def d session_prompt_def)
    then have "get_phone_number d False ins2
            = ([Prompt phone_number_message], Return (JString (strip p)) rest)"
      by (simp only: i2)
    ultimately show ?thesis
      using that(1) by (simp add: r2 Config_init_def ld res2 field_step_def bd3)
  qed
  show ?thesis
    using no_prompt no_phone with_phone same by blast
qed

text \<open>
  The first call is the one of the Pyrogram example on no file; the second call finds
  the three values and never reads the CTRL+C that is waiting. With phone_number
  requested as well, the second call asks for the phone number only.
\<close>

theorem round_trip_witness:
  "outcome (Config_init None three_flags
      [Enter ''12345'', Enter ''0123abc'', Enter ''123456:ABC-DEF''])
     = Constructed
         \<lparr>api_id = Some (JInt 12345), api_hash = Some (JString ''0123abc''),
          bot_token = Some (JString ''123456:ABC-DEF''), phone_number = None\<rparr>
         (JObject [(''api_id'', JInt 12345), (''api_hash'', JString ''0123abc''),
                   (''bot_token'', JString ''123456:ABC-DEF'')]) \<and>
   Config_init
      (file_after (Config_init None three_flags
         [Enter ''12345'', Enter ''0123abc'', Enter ''123456:ABC-DEF'']))
      (three_flags\<lparr>force_update := False\<rparr>) [CtrlC]
     = \<lparr>shown = [],
        file_after = Some (Json (JObject [(''api_id'', JInt 12345),
                       (''api_hash'', JString ''0123abc''),
                       (''bot_token'', JString ''123456:ABC-DEF'')])),
        outcome = Constructed
         \<lparr>api_id = Some (JInt 12345), api_hash = Some (JString ''0123abc''),
          bot_token = Some (JString ''123456:ABC-DEF''), phone_number = None\<rparr>
         (JObject [(''api_id'', JInt 12345), (''api_hash'', JString ''0123abc''),
                   (''bot_token'', JString ''123456:ABC-DEF'')])\<rparr> \<and>
   outcome (Config_init
      (file_after (Config_init None all_flags
         [Enter ''12345'', Enter ''0123abc'', Enter ''123456:ABC-DEF'', Enter ''15551234567'']))
      (all_flags\<lparr>force_update := False\<rparr>) [Enter ''+15557654321''])
     = Constructed
         \<lparr>api_id = Some (JInt 12345), api_hash = Some (JString ''0123abc''),
          bot_token = Some (JString ''123456:ABC-DEF''),
          phone_number = Some (JString ''+15557654321'')\<rparr>
         (JObject [(''api_id'', JInt 12345), (''api_hash'', JString ''0123abc''),
                   (''bot_token'', JString ''123456:ABC-DEF'')])"
proof -
  have h3: "outcome (Config_init None three_flags
      [Enter ''12345'', Enter ''0123abc'', Enter ''123456:ABC-DEF''])
     = Constructed
         \<lparr>api_id = Some (JInt 12345), api_hash = Some (JString ''0123abc''),
          bot_token = Some (JString ''123456:ABC-DEF''), phone_number = None\<rparr>
         (JObject [(''api_id'', JInt 12345), (''api_hash'', JString ''0123abc''),
                   (''bot_token'', JString ''123456:ABC-DEF'')])"
    by (simp add: run_simps three_flags_def)
  have h4: "outcome (Config_init None all_flags
      [Enter ''12345'', Enter ''0123abc'', Enter ''123456:ABC-DEF'', Enter ''15551234567''])
     = Constructed
         \<lparr>api_id = Some (JInt 12345), api_hash = Some (JString ''0123abc''),
          bot_token = Some (JString ''123456:ABC-DEF''),
          phone_number = Some (JString ''15551234567'')\<rparr>
         (JObject [(''api_id'', JInt 12345), (''api_hash'', JString ''0123abc''),
                   (''bot_token'', JString ''123456:ABC-DEF'')])"
    by (simp add: run_simps all_flags_def)
  have np: "\<not> request_phone_number three_flags" "request_phone_number all_flags"
    by (simp_all add: three_flags_def all_flags_def)
  have pm: "phone_match (strip ''+15557654321'')" "strip ''+15557654321'' = ''+15557654321''"
    by (simp_all add: run_simps)
  note rt3 = round_trip [OF h3, of "[CtrlC]"]
  note rt4 = round_trip [OF h4, of "[Enter ''+15557654321'']"]
  have c2: "Config_init
      (file_after (Config_init None three_flags
         [Enter ''12345'', Enter ''0123abc'', Enter ''123456:ABC-DEF'']))
      (three_flags\<lparr>force_update := False\<rparr>) [CtrlC]
     = \<lparr>shown = [],
        file_after = Some (Json (JObject [(''api_id'', JInt 12345),
                       (''api_hash'', JString ''0123abc''),
                       (''bot_token'', JString ''123456:ABC-DEF'')])),
        outcome = Constructed
         \<lparr>api_id = Some (JInt 12345), api_hash = Some (JString ''0123abc''),
          bot_token = Some (JString ''123456:ABC-DEF''), phone_number = None\<rparr>
         (JObject [(''api_id'', JInt 12345), (''api_hash'', JString ''0123abc''),
                   (''bot_token'', JString ''123456:ABC-DEF'')])\<rparr>"
    using rt3 np(1) by blast
  have "outcome (Config_init
      (file_after (Config_init None all_flags
         [Enter ''12345'', Enter ''0123abc'', Enter ''123456:ABC-DEF'', Enter ''15551234567'']))
      (all_flags\<lparr>force_update := False\<rparr>) [Enter ''+15557654321''])
     = Constructed
         (\<lparr>api_id = Some (JInt 12345), api_hash = Some (JString ''0123abc''),
           bot_token = Some (JString ''123456:ABC-DEF''),
           phone_number = Some (JString ''15551234567'')\<rparr>
            \<lparr>phone_number := Some (JString (strip ''+15557654321''))\<rparr>)
         (JObject [(''api_id'', JInt 12345), (''api_hash'', JString ''0123abc''),
                   (''bot_token'', JString ''123456:ABC-DEF'')])"
    using rt4 np(2) pm(1) by blast
  then have c3: "outcome (Config_init
      (file_after (Config_init None all_flags
         [Enter ''12345'', Enter ''0123abc'', Enter ''123456:ABC-DEF'', Enter ''15551234567'']))
      (all_flags\<lparr>force_update := False\<rparr>) [Enter ''+15557654321''])
     = Constructed
         \<lparr>api_id = Some (JInt 12345), api_hash = Some (JString ''0123abc''),
          bot_token = Some (JString ''123456:ABC-DEF''),
          phone_number = Some (JString ''+15557654321'')\<rparr>
         (JObject [(''api_id'', JInt 12345), (''api_hash'', JString ''0123abc''),
                   (''bot_token'', JString ''123456:ABC-DEF'')])"
    by (simp only: pm(2) attrs.simps)
  show ?thesis
    using h3 c2 c3 by (intro conjI)
qed

end
